theory Spec2Isabelle
  imports Complex_Main "HOL-Library.Sublist" "HOL-Library.Multiset"
begin

section \<open>JavaScript values\<close>

text \<open>
  A JavaScript number is NaN, one of the two infinities, or a finite value. The parser only
  compares numbers and asks whether they are whole, so a finite number is represented by the
  rational it denotes (every finite double is one; \<open>-0\<close> and \<open>0\<close> compare equal).
\<close>

datatype jsnum = NaN | NegInf | Fin rat | PosInf

text \<open>The relational operator \<open><\<close> of the language: false as soon as one side is NaN.\<close>

fun num_lt :: "jsnum \<Rightarrow> jsnum \<Rightarrow> bool" where
  "num_lt NaN y = False"
| "num_lt x NaN = False"
| "num_lt (Fin a) (Fin b) = (a < b)"
| "num_lt x NegInf = False"
| "num_lt NegInf y = True"
| "num_lt PosInf y = False"
| "num_lt (Fin a) PosInf = True"

definition num_gt :: "jsnum \<Rightarrow> jsnum \<Rightarrow> bool" where
  "num_gt x y = num_lt y x"

fun isNaN :: "jsnum \<Rightarrow> bool" where
  "isNaN NaN = True"
| "isNaN x = False"

text \<open>\<open>Number.isInteger\<close>: finite and without fractional part.\<close>

fun isInteger :: "jsnum \<Rightarrow> bool" where
  "isInteger (Fin q) = (of_int \<lfloor>q\<rfloor> = q)"
| "isInteger x = False"

text \<open>
  Values of type \<open>any\<close>: what a default may hold and what \<open>JSON.parse\<close> returns.
  \<open>JUndefined\<close> is the value \<open>undefined\<close>; a property that was never set reads as it.
  \<open>JBuiltin m\<close> is the member \<open>m\<close> of \<open>Object.prototype\<close>: a function, or for
  \<open>__proto__\<close> the prototype object itself.
\<close>

datatype jsval =
    JUndefined
  | JNull
  | JBool bool
  | JNum jsnum
  | JStr string
  | JArr "jsval list"
  | JObj "(string \<times> jsval) list"
  | JBuiltin string

text \<open>
  What reading a property of the environment can give besides \<open>undefined\<close>: a string, or a
  member inherited from \<open>Object.prototype\<close>. The declared type of a raw value is
  \<open>string | undefined\<close>, but nothing checks it, so the parser runs on the second kind too.
\<close>

datatype raw = Str string | Builtin string

fun raw_value :: "raw \<Rightarrow> jsval" where
  "raw_value (Str s) = JStr s"
| "raw_value (Builtin m) = JBuiltin m"

text \<open>\<open>Array.prototype.join\<close> on an array of strings.\<close>

fun join :: "string \<Rightarrow> string list \<Rightarrow> string" where
  "join sep [] = ''''"
| "join sep [x] = x"
| "join sep (x # y # ys) = x @ sep @ join sep (y # ys)"

section \<open>Exceptions\<close>

text \<open>
  A call either returns a value or throws. \<open>try_catch\<close> is a \<open>try { ... } catch (error) { ... }\<close>
  statement: the handler runs when the body throws.
\<close>

datatype 'a outcome = Returns 'a | Throws string

definition try_catch :: "'a outcome \<Rightarrow> (string \<Rightarrow> 'a outcome) \<Rightarrow> 'a outcome" where
  "try_catch body handler = (case body of Returns x \<Rightarrow> Returns x | Throws e \<Rightarrow> handler e)"

section \<open>Built-in functions of the runtime\<close>

text \<open>
  The parser calls built-ins of the language runtime whose code is not part of the
  repository. They are parameters of the model, so every theorem below holds for whatever
  the runtime computes:
  \<^item> \<open>Number\<close>: \<open>Number(s)\<close>, the numeric value of a string;
  \<^item> \<open>numberToString\<close>: \<open>String(n)\<close>, which template literals use as well;
  \<^item> \<open>toLowerCase\<close> and \<open>trim\<close>: the string methods of these names;
  \<^item> \<open>newURL\<close>: \<open>new URL(s).protocol\<close>, the scheme with its trailing colon; the
    constructor throws on a string that is not an absolute URL;
  \<^item> \<open>JSON_parse\<close>: \<open>JSON.parse(s)\<close>, which throws on malformed input;
  \<^item> \<open>builtinToString\<close>: the string that a member of \<open>Object.prototype\<close> converts to,
    such as \<open>function toString() { [native code] }\<close>.
\<close>

record Platform =
  Number :: "string \<Rightarrow> jsnum"
  numberToString :: "jsnum \<Rightarrow> string"
  toLowerCase :: "string \<Rightarrow> string"
  trim :: "string \<Rightarrow> string"
  newURL :: "string \<Rightarrow> string outcome"
  JSON_parse :: "string \<Rightarrow> jsval outcome"
  builtinToString :: "string \<Rightarrow> string"

text \<open>
  The conversion of a raw value to a string, which \<open>Number\<close>, \<open>new URL\<close>,
  \<open>JSON.parse\<close>, \<open>RegExp.prototype.test\<close> and template literals apply to their argument.
  For a member of \<open>Object.prototype\<close> the conversion to a number goes through the same
  string, since its \<open>valueOf\<close> returns the object.
\<close>

fun raw_text :: "Platform \<Rightarrow> raw \<Rightarrow> string" where
  "raw_text p (Str s) = s"
| "raw_text p (Builtin m) = builtinToString p m"

text \<open>
  A compiled regular expression. \<open>test i s\<close> says whether a match of \<open>s\<close> is found when
  the search starts at index \<open>i\<close>. A pattern with the \<open>g\<close> or \<open>y\<close> flag starts at its
  \<open>lastIndex\<close>, any other at 0. \<open>source\<close> is the text that a template literal prints for
  the pattern.
\<close>

record RegExp =
  test :: "nat \<Rightarrow> string \<Rightarrow> bool"
  lastIndex :: nat
  global_or_sticky :: bool
  source :: string

text \<open>
  \<open>pattern.test(value)\<close>. With the \<open>g\<close> or \<open>y\<close> flag the call also moves \<open>lastIndex\<close>;
  the statements about a whole schema are made for patterns without these flags.
\<close>

definition regexp_test :: "RegExp \<Rightarrow> string \<Rightarrow> bool" where
  "regexp_test pat s = test pat (if global_or_sticky pat then lastIndex pat else 0) s"

section \<open>Data model (types.ts)\<close>

text \<open>
  \<open>EnvVarConfig\<close> is a union tagged by \<open>type\<close>. Each case carries its own optional
  fields; \<open>None\<close> is a field that is \<open>undefined\<close>. \<open>OtherT\<close> is a tag outside the six
  declared ones, which a schema loaded from an unchecked file may hold and which the parser
  handles in its \<open>default:\<close> branch.
\<close>

datatype TypeFields =
    StringT (minLength: "jsnum option") (maxLength: "jsnum option") (pattern: "RegExp option")
  | NumberT (minV: "jsnum option") (maxV: "jsnum option") (integer: "bool option")
  | BooleanT
  | UrlT (protocols: "string list option")
  | JsonT
  | EnumT (enum_values: "string list")
  | OtherT (tag: string)

text \<open>
  The fields of \<open>BaseEnvVarConfig\<close>, with the variant in \<open>kind\<close>. A default that was not
  given reads as \<open>undefined\<close>.
\<close>

record EnvVarConfig =
  kind :: TypeFields
  required :: "bool option"
  defaultV :: jsval
  description :: "string option"

text \<open>\<open>config.type\<close>, the tag as a string.\<close>

fun type_of :: "TypeFields \<Rightarrow> string" where
  "type_of (StringT a b c) = ''string''"
| "type_of (NumberT a b c) = ''number''"
| "type_of BooleanT = ''boolean''"
| "type_of (UrlT a) = ''url''"
| "type_of JsonT = ''json''"
| "type_of (EnumT a) = ''enum''"
| "type_of (OtherT t) = t"

text \<open>
  \<open>received\<close> is declared a string; the parser stores the raw value there, whatever it
  is.
\<close>

record ValidationError =
  variable :: string
  message :: string
  expected :: "string option"
  received :: "raw option"

record ValidationResult =
  valid :: bool
  errors :: "ValidationError list"
  warnings :: "string list"

text \<open>The object \<open>{ value, error? }\<close> that every parse function returns.\<close>

record ParseResult =
  val :: jsval
  error :: "ValidationError option"

definition ok :: "jsval \<Rightarrow> ParseResult" where
  "ok v = \<lparr>val = v, error = None\<rparr>"

definition fail ::
  "jsval \<Rightarrow> string \<Rightarrow> string \<Rightarrow> string option \<Rightarrow> raw option \<Rightarrow> ParseResult" where
  "fail v name msg ex re =
     \<lparr>val = v, error = Some \<lparr>variable = name, message = msg, expected = ex, received = re\<rparr>\<rparr>"

section \<open>Objects\<close>

text \<open>
  The schema, the raw environment and the typed result of \<open>parseEnv\<close> are ordinary objects
  whose prototype is \<open>Object.prototype\<close>, as an object literal, \<open>process.env\<close> and what
  a dotenv file parses to are. An object is represented by its own properties in the order
  in which they were declared, with distinct keys. A property of the environment may hold
  \<open>undefined\<close> (\<open>None\<close>).
\<close>

type_synonym EnvSchema = "(string \<times> EnvVarConfig) list"

type_synonym RawEnv = "(string \<times> string option) list"

type_synonym TypedEnv = "(string \<times> jsval) list"

text \<open>
  An array index is the decimal spelling, without leading zero, of a number below
  \<open>2^32 - 1\<close>.
\<close>

definition index_value :: "string \<Rightarrow> nat" where
  "index_value s = foldl (\<lambda>n c. 10 * n + (of_char c - 48)) 0 s"

definition is_array_index :: "string \<Rightarrow> bool" where
  "is_array_index s =
     (case s of
        [] \<Rightarrow> False
      | c # cs \<Rightarrow>
          list_all (\<lambda>d. d \<in> set ''0123456789'') s \<and> (c \<noteq> CHR ''0'' \<or> cs = [])
          \<and> index_value s < 4294967295)"

text \<open>
  \<open>Object.entries\<close>: the properties whose key is an array index come first, in ascending
  numeric order, then the others in the order of their declaration. \<open>Object.keys\<close> gives
  the keys of these entries.
\<close>

definition Object_entries :: "(string \<times> 'a) list \<Rightarrow> (string \<times> 'a) list" where
  "Object_entries obj =
     sort_key (\<lambda>entry. index_value (fst entry)) [entry \<leftarrow> obj. is_array_index (fst entry)]
     @ [entry \<leftarrow> obj. \<not> is_array_index (fst entry)]"

definition Object_keys :: "(string \<times> 'a) list \<Rightarrow> string list" where
  "Object_keys obj = map fst (Object_entries obj)"

text \<open>The properties that every ordinary object inherits.\<close>

definition Object_prototype_members :: "string list" where
  "Object_prototype_members =
     [''constructor'', ''__defineGetter__'', ''__defineSetter__'', ''hasOwnProperty'',
      ''__lookupGetter__'', ''__lookupSetter__'', ''isPrototypeOf'', ''propertyIsEnumerable'',
      ''toString'', ''valueOf'', ''__proto__'', ''toLocaleString'']"

text \<open>
  \<open>env[key]\<close>: the own property if there is one, else the inherited member of that name,
  else \<open>undefined\<close>.
\<close>

definition env_get :: "RawEnv \<Rightarrow> string \<Rightarrow> raw option" where
  "env_get env key =
     (case map_of env key of
        Some v \<Rightarrow> map_option Str v
      | None \<Rightarrow> if key \<in> set Object_prototype_members then Some (Builtin key) else None)"

text \<open>
  \<open>result[key] = value\<close> on the object \<open>result\<close>, which starts as \<open>{}\<close>: an existing
  property keeps its place, a new one is appended. The key \<open>__proto__\<close> is the inherited
  accessor, whose setter changes the prototype when the value is an object or null and does
  nothing otherwise; it creates no own property.
\<close>

fun store :: "string \<Rightarrow> jsval \<Rightarrow> TypedEnv \<Rightarrow> TypedEnv" where
  "store key v [] = [(key, v)]"
| "store key v ((k, w) # rest) =
     (if k = key then (key, v) # rest else (k, w) # store key v rest)"

definition assign :: "string \<Rightarrow> jsval \<Rightarrow> TypedEnv \<Rightarrow> TypedEnv" where
  "assign key v result = (if key = ''__proto__'' then result else store key v result)"

section \<open>The value parser (core/parser.ts)\<close>

text \<open>
  \<open>value.length\<close> of a string is its number of UTF-16 code units. The model holds a string
  as its UTF-8 bytes: every byte that is not a continuation byte starts one character, and a
  character of four bytes takes two code units.
\<close>

definition str_length :: "string \<Rightarrow> jsnum" where
  "str_length s =
     Fin (of_nat (length [c \<leftarrow> s. \<not> (128 \<le> (of_char c :: nat) \<and> (of_char c :: nat) < 192)]
                  + length [c \<leftarrow> s. 240 \<le> (of_char c :: nat)]))"

text \<open>
  \<open>value.length\<close> of a member of \<open>Object.prototype\<close>: the number of parameters of the
  function. The prototype object has no \<open>length\<close>; \<open>undefined\<close> compares as NaN does.
\<close>

definition builtin_length :: "string \<Rightarrow> jsnum" where
  "builtin_length m =
     (if m = ''__proto__'' then NaN
      else if m \<in> set [''toString'', ''valueOf'', ''toLocaleString''] then Fin 0
      else if m \<in> set [''__defineGetter__'', ''__defineSetter__''] then Fin 2
      else Fin 1)"

fun raw_length :: "raw \<Rightarrow> jsnum" where
  "raw_length (Str s) = str_length s"
| "raw_length (Builtin m) = builtin_length m"

definition parseString ::
  "Platform \<Rightarrow> raw \<Rightarrow> jsnum option \<Rightarrow> jsnum option \<Rightarrow> RegExp option \<Rightarrow> string
     \<Rightarrow> ParseResult outcome" where
  "parseString p v minL maxL pat name =
     (if minL \<noteq> None \<and> num_lt (raw_length v) (the minL) then
        Returns (fail (raw_value v) name
          (''String is too short (minimum: '' @ numberToString p (the minL) @ '' characters)'')
          (Some (''string with at least '' @ numberToString p (the minL) @ '' characters''))
          (Some (Str (''string with '' @ numberToString p (raw_length v) @ '' characters''))))
      else if maxL \<noteq> None \<and> num_gt (raw_length v) (the maxL) then
        Returns (fail (raw_value v) name
          (''String is too long (maximum: '' @ numberToString p (the maxL) @ '' characters)'')
          (Some (''string with at most '' @ numberToString p (the maxL) @ '' characters''))
          (Some (Str (''string with '' @ numberToString p (raw_length v) @ '' characters''))))
      else if pat \<noteq> None \<and> \<not> regexp_test (the pat) (raw_text p v) then
        Returns (fail (raw_value v) name
          (''String does not match required pattern: '' @ source (the pat))
          (Some (''string matching '' @ source (the pat)))
          (Some v))
      else Returns (ok (raw_value v)))"

definition parseNumber ::
  "Platform \<Rightarrow> raw \<Rightarrow> jsnum option \<Rightarrow> jsnum option \<Rightarrow> bool option \<Rightarrow> string
     \<Rightarrow> ParseResult outcome" where
  "parseNumber p v mn mx intg name =
     (let num = Number p (raw_text p v) in
      if isNaN num then
        Returns (fail (JNum num) name ''Invalid number format'' (Some ''number'') (Some v))
      else if intg = Some True \<and> \<not> isInteger num then
        Returns (fail (JNum num) name ''Value must be an integer'' (Some ''integer'') (Some v))
      else if mn \<noteq> None \<and> num_lt num (the mn) then
        Returns (fail (JNum num) name
          (''Number is below minimum value ('' @ numberToString p (the mn) @ '')'')
          (Some (''number >= '' @ numberToString p (the mn)))
          (Some (Str (numberToString p num))))
      else if mx \<noteq> None \<and> num_gt num (the mx) then
        Returns (fail (JNum num) name
          (''Number exceeds maximum value ('' @ numberToString p (the mx) @ '')'')
          (Some (''number <= '' @ numberToString p (the mx)))
          (Some (Str (numberToString p num))))
      else Returns (ok (JNum num)))"

text \<open>
  A member of \<open>Object.prototype\<close> has no method \<open>toLowerCase\<close>: the call throws a
  \<open>TypeError\<close>, outside any \<open>try\<close>.
\<close>

definition TypeError_toLowerCase :: string where
  "TypeError_toLowerCase = ''TypeError: value.toLowerCase is not a function''"

fun parseBoolean :: "Platform \<Rightarrow> raw \<Rightarrow> string \<Rightarrow> ParseResult outcome" where
  "parseBoolean p (Builtin m) name = Throws TypeError_toLowerCase"
| "parseBoolean p (Str v) name =
     (let lowerValue = trim p (toLowerCase p v) in
      if lowerValue = ''true'' \<or> lowerValue = ''1'' \<or> lowerValue = ''yes'' then
        Returns (ok (JBool True))
      else if lowerValue = ''false'' \<or> lowerValue = ''0'' \<or> lowerValue = ''no'' then
        Returns (ok (JBool False))
      else
        Returns (fail (JBool False) name ''Invalid boolean value''
          (Some ''true, false, 1, 0, yes, or no'') (Some (Str v))))"

text \<open>\<open>url.protocol.slice(0, -1)\<close> drops the last character, the colon.\<close>

definition parseUrl ::
  "Platform \<Rightarrow> raw \<Rightarrow> string list option \<Rightarrow> string \<Rightarrow> ParseResult outcome" where
  "parseUrl p v protos name =
     try_catch
       (case newURL p (raw_text p v) of
          Throws e \<Rightarrow> Throws e
        | Returns protocol \<Rightarrow>
            (if protos \<noteq> None \<and> butlast protocol \<notin> set (the protos) then
               Returns (fail (raw_value v) name ''Invalid URL protocol''
                 (Some (''URL with protocol: '' @ join '', '' (the protos)))
                 (Some (Str (butlast protocol))))
             else Returns (ok (raw_value v))))
       (\<lambda>error. Returns (fail (raw_value v) name ''Invalid URL format'' (Some ''valid URL'')
                   (Some v)))"

definition parseJson :: "Platform \<Rightarrow> raw \<Rightarrow> string \<Rightarrow> ParseResult outcome" where
  "parseJson p v name =
     try_catch
       (case JSON_parse p (raw_text p v) of
          Throws e \<Rightarrow> Throws e
        | Returns parsed \<Rightarrow> Returns (ok parsed))
       (\<lambda>error. Returns (fail JUndefined name ''Invalid JSON format''
                   (Some ''valid JSON string'') (Some v)))"

text \<open>\<open>values.includes(value)\<close> compares with the strings of the list.\<close>

fun array_includes :: "string list \<Rightarrow> raw \<Rightarrow> bool" where
  "array_includes vals (Str s) = (s \<in> set vals)"
| "array_includes vals (Builtin m) = False"

definition parseEnum :: "raw \<Rightarrow> string list \<Rightarrow> string \<Rightarrow> ParseResult outcome" where
  "parseEnum v vals name =
     (if \<not> array_includes vals v then
        Returns (fail (raw_value v) name (''Value must be one of: '' @ join '', '' vals)
          (Some (join '', '' vals)) (Some v))
      else Returns (ok (raw_value v)))"

text \<open>The \<open>switch\<close> on \<open>config.type\<close>, for a raw value that is present and not empty.\<close>

fun parseByType :: "Platform \<Rightarrow> raw \<Rightarrow> TypeFields \<Rightarrow> string \<Rightarrow> ParseResult outcome" where
  "parseByType p v (StringT minL maxL pat) name = parseString p v minL maxL pat name"
| "parseByType p v (NumberT mn mx intg) name = parseNumber p v mn mx intg name"
| "parseByType p v BooleanT name = parseBoolean p v name"
| "parseByType p v (UrlT protos) name = parseUrl p v protos name"
| "parseByType p v JsonT name = parseJson p v name"
| "parseByType p v (EnumT vals) name = parseEnum v vals name"
| "parseByType p v (OtherT t) name =
     Returns (fail JUndefined name (''Unknown type: '' @ t) None (Some v))"

text \<open>The raw value is \<open>None\<close> when it is \<open>undefined\<close>.\<close>

definition parseValue ::
  "Platform \<Rightarrow> raw option \<Rightarrow> EnvVarConfig \<Rightarrow> string \<Rightarrow> ParseResult outcome" where
  "parseValue p rawValue config variableName =
     (if rawValue = None \<or> rawValue = Some (Str '''') then
        (if defaultV config \<noteq> JUndefined then Returns (ok (defaultV config))
         else if required config \<noteq> Some False then
           Returns (fail JUndefined variableName ''Required environment variable is missing''
             (Some (type_of (kind config) @ '' value'')) (Some (Str ''undefined'')))
         else Returns (ok JUndefined))
      else parseByType p (the rawValue) (kind config) variableName)"

section \<open>The schema validator (core/validator.ts)\<close>

text \<open>
  The first loop of \<open>validateEnv\<close>, over \<open>Object.entries(schema)\<close>, with the array
  \<open>errors\<close> as accumulator. An exception of \<open>parseValue\<close> leaves the loop.
\<close>

fun validate_loop ::
  "Platform \<Rightarrow> RawEnv \<Rightarrow> EnvSchema \<Rightarrow> ValidationError list \<Rightarrow> ValidationError list outcome" where
  "validate_loop p env [] errs = Returns errs"
| "validate_loop p env ((key, config) # rest) errs =
     (case parseValue p (env_get env key) config key of
        Throws e \<Rightarrow> Throws e
      | Returns r \<Rightarrow>
          (case error r of
             Some e \<Rightarrow> validate_loop p env rest (errs @ [e])
           | None \<Rightarrow> validate_loop p env rest errs))"

definition warning_text :: "string \<Rightarrow> string" where
  "warning_text key =
     ''Environment variable '' @ [CHR 0x22] @ key @ [CHR 0x22] @ '' is not defined in schema''"

text \<open>The second loop, over \<open>Object.keys(env)\<close>, with the array \<open>warnings\<close>.\<close>

fun warning_loop :: "RawEnv \<Rightarrow> string set \<Rightarrow> string list \<Rightarrow> string list \<Rightarrow> string list" where
  "warning_loop env schemaKeys [] warns = warns"
| "warning_loop env schemaKeys (key # rest) warns =
     (if key \<notin> schemaKeys \<and> env_get env key \<noteq> None
      then warning_loop env schemaKeys rest (warns @ [warning_text key])
      else warning_loop env schemaKeys rest warns)"

definition validateEnv :: "Platform \<Rightarrow> RawEnv \<Rightarrow> EnvSchema \<Rightarrow> ValidationResult outcome" where
  "validateEnv p env schema =
     (case validate_loop p env (Object_entries schema) [] of
        Throws e \<Rightarrow> Throws e
      | Returns errs \<Rightarrow>
          (let schemaKeys = set (Object_keys schema);
               warns = warning_loop env schemaKeys (Object_keys env) []
           in Returns \<lparr>valid = (length errs = 0), errors = errs, warnings = warns\<rparr>))"

text \<open>The mark that starts each block of the message, U+2718, as its UTF-8 bytes.\<close>

definition cross_mark :: string where
  "cross_mark = [CHR 0xE2, CHR 0x9C, CHR 0x98]"

definition newline :: string where
  "newline = [CHR 0x0A]"

text \<open>
  One block of the message. \<open>if (error.expected)\<close> is false for a missing and for an empty
  string; \<open>error.received !== undefined\<close> only for a missing one.
\<close>

definition format_block :: "Platform \<Rightarrow> ValidationError \<Rightarrow> string" where
  "format_block p e =
     (let msg = ''  '' @ cross_mark @ '' '' @ variable e @ '': '' @ message e;
          msg = (if expected e \<noteq> None \<and> expected e \<noteq> Some ''''
                 then msg @ newline @ ''    Expected: '' @ the (expected e) else msg);
          msg = (if received e \<noteq> None
                 then msg @ newline @ ''    Received: '' @ raw_text p (the (received e)) else msg)
      in msg)"

definition formatValidationErrors :: "Platform \<Rightarrow> ValidationError list \<Rightarrow> string" where
  "formatValidationErrors p errs = join (newline @ newline) (map (format_block p) errs)"

text \<open>The loop of \<open>parseEnv\<close>, with the object \<open>result\<close> and the array \<open>errors\<close>.\<close>

fun parse_loop ::
  "Platform \<Rightarrow> RawEnv \<Rightarrow> EnvSchema \<Rightarrow> TypedEnv \<Rightarrow> ValidationError list
     \<Rightarrow> (TypedEnv \<times> ValidationError list) outcome" where
  "parse_loop p env [] result errs = Returns (result, errs)"
| "parse_loop p env ((key, config) # rest) result errs =
     (case parseValue p (env_get env key) config key of
        Throws e \<Rightarrow> Throws e
      | Returns r \<Rightarrow>
          (case error r of
             Some e \<Rightarrow> parse_loop p env rest result (errs @ [e])
           | None \<Rightarrow> parse_loop p env rest (assign key (val r) result) errs))"

definition parseEnv :: "Platform \<Rightarrow> RawEnv \<Rightarrow> EnvSchema \<Rightarrow> TypedEnv outcome" where
  "parseEnv p env schema =
     (case parse_loop p env (Object_entries schema) [] [] of
        Throws e \<Rightarrow> Throws e
      | Returns (result, errs) \<Rightarrow>
          (if length errs > 0 then
             Throws (''Environment validation failed:'' @ newline @ formatValidationErrors p errs)
           else Returns result))"

section \<open>A runtime for the examples\<close>

text \<open>
  The examples below need values of the built-ins. \<open>example_runtime\<close> gives them on the
  strings and numbers the examples use, as the language defines them there: lower-casing and
  trimming are those of the ASCII range, the others are tables. An input outside a table
  gets a placeholder, which says nothing about the runtime.
\<close>

definition ascii_lower :: "char \<Rightarrow> char" where
  "ascii_lower c =
     (case map_of (zip ''ABCDEFGHIJKLMNOPQRSTUVWXYZ'' ''abcdefghijklmnopqrstuvwxyz'') c of
        Some d \<Rightarrow> d
      | None \<Rightarrow> c)"

definition ascii_space :: "char \<Rightarrow> bool" where
  "ascii_space c = (c \<in> set [CHR 0x20, CHR 0x09, CHR 0x0A, CHR 0x0B, CHR 0x0C, CHR 0x0D])"

definition ascii_trim :: "string \<Rightarrow> string" where
  "ascii_trim s = rev (dropWhile ascii_space (rev (dropWhile ascii_space s)))"

definition example_Number :: "string \<Rightarrow> jsnum" where
  "example_Number s =
     (case map_of [(''5'', Fin 5), (''10'', Fin 10), (''11'', Fin 11), (''3.14'', Fin (157 / 50)),
                   (''8080'', Fin 8080)] s of
        Some n \<Rightarrow> n
      | None \<Rightarrow> NaN)"

definition example_numberToString :: "jsnum \<Rightarrow> string" where
  "example_numberToString n =
     (if n = Fin 5 then ''5'' else if n = Fin 10 then ''10'' else if n = Fin 11 then ''11''
      else if n = Fin 3 then ''3'' else if n = Fin 20 then ''20'' else ''NaN'')"

definition example_newURL :: "string \<Rightarrow> string outcome" where
  "example_newURL s =
     (case map_of [(''https://example.com'', ''https:''), (''ftp://example.com'', ''ftp:'')] s of
        Some protocol \<Rightarrow> Returns protocol
      | None \<Rightarrow> Throws ''TypeError: Invalid URL'')"

definition example_JSON_parse :: "string \<Rightarrow> jsval outcome" where
  "example_JSON_parse s =
     (case map_of [(''[1]'', JArr [JNum (Fin 1)]), (''null'', JNull)] s of
        Some v \<Rightarrow> Returns v
      | None \<Rightarrow> Throws ''SyntaxError: Unexpected token'')"

definition example_builtinToString :: "string \<Rightarrow> string" where
  "example_builtinToString m =
     (if m = ''__proto__'' then ''[object Object]''
      else if m = ''constructor'' then ''function Object() { [native code] }''
      else ''function '' @ m @ ''() { [native code] }'')"

definition example_runtime :: Platform where
  "example_runtime =
     \<lparr>Number = example_Number, numberToString = example_numberToString,
      toLowerCase = map ascii_lower, trim = ascii_trim,
      newURL = example_newURL, JSON_parse = example_JSON_parse,
      builtinToString = example_builtinToString\<rparr>"

text \<open>Descriptors with the base fields at their defaults: required, no default.\<close>

definition descriptor :: "TypeFields \<Rightarrow> EnvVarConfig" where
  "descriptor t = \<lparr>kind = t, required = None, defaultV = JUndefined, description = None\<rparr>"

text \<open>The pattern \<open>/^[0-9]+$/\<close>: one or more digits and nothing else.\<close>

definition digits_pattern :: RegExp where
  "digits_pattern =
     \<lparr>test = (\<lambda>i s. s \<noteq> '''' \<and> list_all (\<lambda>c. c \<in> set ''0123456789'') s),
      lastIndex = 0, global_or_sticky = False, source = ''/^[0-9]+$/''\<rparr>"

section \<open>Notions used in the statements\<close>

text \<open>
  \<open>env[key]\<close> has its declared type when it is a string or \<open>undefined\<close>, that is, when it
  is not an inherited member. \<open>string_lookup\<close> is the value read in that case.
\<close>

definition typed_lookup :: "RawEnv \<Rightarrow> string \<Rightarrow> bool" where
  "typed_lookup env key = (case env_get env key of Some (Builtin m) \<Rightarrow> False | _ \<Rightarrow> True)"

definition string_lookup :: "RawEnv \<Rightarrow> string \<Rightarrow> string option" where
  "string_lookup env key = (case env_get env key of Some (Str s) \<Rightarrow> Some s | _ \<Rightarrow> None)"

text \<open>
  The error that one schema entry contributes: the error of its parse against the raw
  environment, if there is one.
\<close>

definition entry_error ::
  "Platform \<Rightarrow> RawEnv \<Rightarrow> string \<times> EnvVarConfig \<Rightarrow> ValidationError option" where
  "entry_error p env entry =
     (case parseValue p (env_get env (fst entry)) (snd entry) (fst entry) of
        Returns r \<Rightarrow> error r
      | Throws e \<Rightarrow> None)"

text \<open>The entries whose parse throws: a boolean field that reads an inherited member.\<close>

definition entry_throws :: "RawEnv \<Rightarrow> string \<times> EnvVarConfig \<Rightarrow> bool" where
  "entry_throws env entry = (kind (snd entry) = BooleanT \<and> \<not> typed_lookup env (fst entry))"

text \<open>A descriptor whose pattern, if it has one, has neither the \<open>g\<close> nor the \<open>y\<close> flag.\<close>

fun stateless :: "TypeFields \<Rightarrow> bool" where
  "stateless (StringT minL maxL (Some pat)) = (\<not> global_or_sticky pat)"
| "stateless t = True"

subsection \<open>The rules of the specification\<close>

text \<open>
  Section 4.1 of the specification gives, for each type, rules that are checked in a fixed
  order, each with its error; the first rule that fails decides. A rule is written as the
  pair of its failure condition and its error. The texts of the errors that the
  specification leaves open are those of the parser.
\<close>

type_synonym rule = "bool \<times> ValidationError"

fun first_failing :: "rule list \<Rightarrow> ValidationError option" where
  "first_failing [] = None"
| "first_failing ((fails, e) # rest) = (if fails then Some e else first_failing rest)"

definition MissingRequired :: "string \<Rightarrow> string \<Rightarrow> ValidationError" where
  "MissingRequired name ty =
     \<lparr>variable = name, message = ''Required environment variable is missing'',
      expected = Some (ty @ '' value''), received = Some (Str ''undefined'')\<rparr>"

definition TooShort :: "Platform \<Rightarrow> string \<Rightarrow> jsnum \<Rightarrow> string \<Rightarrow> ValidationError" where
  "TooShort p name m s =
     \<lparr>variable = name,
      message = ''String is too short (minimum: '' @ numberToString p m @ '' characters)'',
      expected = Some (''string with at least '' @ numberToString p m @ '' characters''),
      received = Some (Str (''string with '' @ numberToString p (str_length s) @ '' characters''))\<rparr>"

definition TooLong :: "Platform \<Rightarrow> string \<Rightarrow> jsnum \<Rightarrow> string \<Rightarrow> ValidationError" where
  "TooLong p name m s =
     \<lparr>variable = name,
      message = ''String is too long (maximum: '' @ numberToString p m @ '' characters)'',
      expected = Some (''string with at most '' @ numberToString p m @ '' characters''),
      received = Some (Str (''string with '' @ numberToString p (str_length s) @ '' characters''))\<rparr>"

definition PatternMismatch :: "string \<Rightarrow> RegExp \<Rightarrow> string \<Rightarrow> ValidationError" where
  "PatternMismatch name pat s =
     \<lparr>variable = name,
      message = ''String does not match required pattern: '' @ source pat,
      expected = Some (''string matching '' @ source pat), received = Some (Str s)\<rparr>"

definition InvalidNumber :: "string \<Rightarrow> string \<Rightarrow> ValidationError" where
  "InvalidNumber name s =
     \<lparr>variable = name, message = ''Invalid number format'', expected = Some ''number'',
      received = Some (Str s)\<rparr>"

definition NotInteger :: "string \<Rightarrow> string \<Rightarrow> ValidationError" where
  "NotInteger name s =
     \<lparr>variable = name, message = ''Value must be an integer'', expected = Some ''integer'',
      received = Some (Str s)\<rparr>"

definition BelowMinimum :: "Platform \<Rightarrow> string \<Rightarrow> jsnum \<Rightarrow> jsnum \<Rightarrow> ValidationError" where
  "BelowMinimum p name m num =
     \<lparr>variable = name,
      message = ''Number is below minimum value ('' @ numberToString p m @ '')'',
      expected = Some (''number >= '' @ numberToString p m),
      received = Some (Str (numberToString p num))\<rparr>"

definition AboveMaximum :: "Platform \<Rightarrow> string \<Rightarrow> jsnum \<Rightarrow> jsnum \<Rightarrow> ValidationError" where
  "AboveMaximum p name m num =
     \<lparr>variable = name,
      message = ''Number exceeds maximum value ('' @ numberToString p m @ '')'',
      expected = Some (''number <= '' @ numberToString p m),
      received = Some (Str (numberToString p num))\<rparr>"

definition InvalidBoolean :: "string \<Rightarrow> string \<Rightarrow> ValidationError" where
  "InvalidBoolean name s =
     \<lparr>variable = name, message = ''Invalid boolean value'',
      expected = Some ''true, false, 1, 0, yes, or no'', received = Some (Str s)\<rparr>"

definition InvalidUrl :: "string \<Rightarrow> string \<Rightarrow> ValidationError" where
  "InvalidUrl name s =
     \<lparr>variable = name, message = ''Invalid URL format'', expected = Some ''valid URL'',
      received = Some (Str s)\<rparr>"

definition InvalidProtocol :: "string \<Rightarrow> string list \<Rightarrow> string \<Rightarrow> ValidationError" where
  "InvalidProtocol name allowed scheme =
     \<lparr>variable = name, message = ''Invalid URL protocol'',
      expected = Some (''URL with protocol: '' @ join '', '' allowed),
      received = Some (Str scheme)\<rparr>"

definition InvalidJson :: "string \<Rightarrow> string \<Rightarrow> ValidationError" where
  "InvalidJson name s =
     \<lparr>variable = name, message = ''Invalid JSON format'', expected = Some ''valid JSON string'',
      received = Some (Str s)\<rparr>"

definition InvalidEnumValue :: "string \<Rightarrow> string list \<Rightarrow> string \<Rightarrow> ValidationError" where
  "InvalidEnumValue name allowed s =
     \<lparr>variable = name, message = ''Value must be one of: '' @ join '', '' allowed,
      expected = Some (join '', '' allowed), received = Some (Str s)\<rparr>"

definition UnknownType :: "string \<Rightarrow> string \<Rightarrow> string \<Rightarrow> ValidationError" where
  "UnknownType name t s =
     \<lparr>variable = name, message = ''Unknown type: '' @ t, expected = None,
      received = Some (Str s)\<rparr>"

text \<open>The scheme of a string that parses as a URL, without the colon.\<close>

definition scheme_of :: "Platform \<Rightarrow> string \<Rightarrow> string" where
  "scheme_of p s = (case newURL p s of Returns protocol \<Rightarrow> butlast protocol | Throws e \<Rightarrow> '''')"

definition throws :: "'a outcome \<Rightarrow> bool" where
  "throws x = (case x of Returns y \<Rightarrow> False | Throws e \<Rightarrow> True)"

text \<open>The rules of each type for a raw string that is present and not empty.\<close>

fun type_rules :: "Platform \<Rightarrow> string \<Rightarrow> TypeFields \<Rightarrow> string \<Rightarrow> rule list" where
  "type_rules p s (StringT minL maxL pat) name =
     [(minL \<noteq> None \<and> num_lt (str_length s) (the minL), TooShort p name (the minL) s),
      (maxL \<noteq> None \<and> num_lt (the maxL) (str_length s), TooLong p name (the maxL) s),
      (pat \<noteq> None \<and> \<not> test (the pat) 0 s, PatternMismatch name (the pat) s)]"
| "type_rules p s (NumberT mn mx intg) name =
     [(isNaN (Number p s), InvalidNumber name s),
      (intg = Some True \<and> \<not> isInteger (Number p s), NotInteger name s),
      (mn \<noteq> None \<and> num_lt (Number p s) (the mn), BelowMinimum p name (the mn) (Number p s)),
      (mx \<noteq> None \<and> num_lt (the mx) (Number p s), AboveMaximum p name (the mx) (Number p s))]"
| "type_rules p s BooleanT name =
     [(trim p (toLowerCase p s) \<notin> {''true'', ''1'', ''yes'', ''false'', ''0'', ''no''},
       InvalidBoolean name s)]"
| "type_rules p s (UrlT protos) name =
     [(throws (newURL p s), InvalidUrl name s),
      (protos \<noteq> None \<and> scheme_of p s \<notin> set (the protos),
       InvalidProtocol name (the protos) (scheme_of p s))]"
| "type_rules p s JsonT name = [(throws (JSON_parse p s), InvalidJson name s)]"
| "type_rules p s (EnumT vals) name = [(s \<notin> set vals, InvalidEnumValue name vals s)]"
| "type_rules p s (OtherT t) name = [(True, UnknownType name t s)]"

text \<open>
  Absent or empty input has one rule, which fails when there is no default and the variable
  is not explicitly optional.
\<close>

definition spec_rules :: "Platform \<Rightarrow> string option \<Rightarrow> EnvVarConfig \<Rightarrow> string \<Rightarrow> rule list" where
  "spec_rules p rawValue config name =
     (if rawValue = None \<or> rawValue = Some '''' then
        [(defaultV config = JUndefined \<and> required config \<noteq> Some False,
          MissingRequired name (type_of (kind config)))]
      else type_rules p (the rawValue) (kind config) name)"

text \<open>The error of a schema entry according to these rules.\<close>

definition spec_error ::
  "Platform \<Rightarrow> RawEnv \<Rightarrow> string \<times> EnvVarConfig \<Rightarrow> ValidationError option" where
  "spec_error p env entry =
     first_failing (spec_rules p (string_lookup env (fst entry)) (snd entry) (fst entry))"

section \<open>The parser on its own\<close>

lemma num_lt_irrefl: "\<not> num_lt x x"
  by (cases x) simp_all

lemmas example_defs = example_runtime_def example_Number_def example_numberToString_def
  example_newURL_def example_JSON_parse_def example_builtinToString_def ascii_lower_def
  ascii_space_def ascii_trim_def descriptor_def

subsection \<open>Absent and empty input\<close>

text \<open>
  C1. When the raw value is absent or the empty string, \<open>parseValue\<close> returns the default
  without error if the default is defined, whatever \<open>required\<close> says; otherwise, unless
  \<open>required\<close> is explicitly false, the missing-variable error with message
  \<open>Required environment variable is missing\<close>, expected \<open><type> value\<close> and received
  \<open>undefined\<close>; otherwise no value and no error.
\<close>

theorem parseValue_absent_resolution:
  assumes "rawValue = None \<or> rawValue = Some (Str '''')"
  shows "parseValue p rawValue config name = Returns
     (if defaultV config \<noteq> JUndefined then \<lparr>val = defaultV config, error = None\<rparr>
      else if required config \<noteq> Some False then
        \<lparr>val = JUndefined,
         error = Some \<lparr>variable = name,
                       message = ''Required environment variable is missing'',
                       expected = Some (type_of (kind config) @ '' value''),
                       received = Some (Str ''undefined'')\<rparr>\<rparr>
      else \<lparr>val = JUndefined, error = None\<rparr>)"
  using assms by (auto simp: parseValue_def ok_def fail_def)

text \<open>
  An empty \<open>PORT\<close> with default 3000 and \<open>required: true\<close> yields 3000; a missing
  \<open>DATABASE_URL\<close> without default yields the error.
\<close>

theorem parseValue_absent_resolution_witness:
  "parseValue example_runtime (Some (Str ''''))
     \<lparr>kind = NumberT None None None, required = Some True, defaultV = JNum (Fin 3000),
      description = None\<rparr> ''PORT''
     = Returns \<lparr>val = JNum (Fin 3000), error = None\<rparr>
   \<and> parseValue example_runtime None (descriptor (UrlT None)) ''DATABASE_URL''
     = Returns \<lparr>val = JUndefined,
         error = Some \<lparr>variable = ''DATABASE_URL'',
                       message = ''Required environment variable is missing'',
                       expected = Some ''url value'', received = Some (Str ''undefined'')\<rparr>\<rparr>"
  using parseValue_absent_resolution [of "Some (Str '''')" example_runtime
      "\<lparr>kind = NumberT None None None, required = Some True, defaultV = JNum (Fin 3000),
        description = None\<rparr>" "''PORT''"]
    parseValue_absent_resolution [of None example_runtime "descriptor (UrlT None)" "''DATABASE_URL''"]
  by (simp add: descriptor_def)

text \<open>
  C9. The empty string is parsed exactly as an absent value, in every branch: the two results
  are equal. So the only error the empty string can produce is the missing-variable error,
  and only without a default and unless \<open>required\<close> is false; a string field never
  reports a length or pattern failure for it.
\<close>

theorem parseValue_empty_same_as_absent:
  "parseValue p (Some (Str '''')) config name = parseValue p None config name
   \<and> (\<forall>r e. parseValue p (Some (Str '''')) config name = Returns r \<longrightarrow> error r = Some e \<longrightarrow>
         defaultV config = JUndefined \<and> required config \<noteq> Some False
         \<and> message e = ''Required environment variable is missing'')"
  by (auto simp: parseValue_def ok_def fail_def split: if_splits)

text \<open>
  A required string field with \<open>minLength: 5\<close> and a digits pattern: the empty string
  gives the missing-variable error, as the absent value does.
\<close>

theorem parseValue_empty_same_as_absent_witness:
  "parseValue example_runtime (Some (Str ''''))
     (descriptor (StringT (Some (Fin 5)) None (Some digits_pattern)))
     ''KEY''
   = parseValue example_runtime None
     (descriptor (StringT (Some (Fin 5)) None (Some digits_pattern)))
     ''KEY''
   \<and> parseValue example_runtime (Some (Str ''''))
     (descriptor (StringT (Some (Fin 5)) None (Some digits_pattern)))
     ''KEY''
   = Returns \<lparr>val = JUndefined,
         error = Some \<lparr>variable = ''KEY'',
                       message = ''Required environment variable is missing'',
                       expected = Some ''string value'', received = Some (Str ''undefined'')\<rparr>\<rparr>"
proof -
  have run: "parseValue example_runtime (Some (Str ''''))
     (descriptor (StringT (Some (Fin 5)) None (Some digits_pattern)))
     ''KEY''
   = Returns \<lparr>val = JUndefined,
         error = Some \<lparr>variable = ''KEY'',
                       message = ''Required environment variable is missing'',
                       expected = Some ''string value'', received = Some (Str ''undefined'')\<rparr>\<rparr>"
    by (simp add: parseValue_def fail_def descriptor_def)
  from run parseValue_empty_same_as_absent [of example_runtime
     "descriptor (StringT (Some (Fin 5)) None (Some digits_pattern))"
     "''KEY''"]
  show ?thesis by simp
qed

text \<open>
  C10. With a default defined and the raw value absent or empty, the default is returned
  as it is, with no error, for every type and whatever the constraints of the descriptor:
  nothing is checked on it.
\<close>

theorem parseValue_default_unchecked:
  assumes "rawValue = None \<or> rawValue = Some (Str '''')" and "defaultV config \<noteq> JUndefined"
  shows "parseValue p rawValue config name = Returns \<lparr>val = defaultV config, error = None\<rparr>"
  using assms by (auto simp: parseValue_def ok_def)

text \<open>
  A default shorter than \<open>minLength\<close>, a boolean default of a number field with
  bounds, and a default that is not one of the enum's values are all returned.
\<close>

theorem parseValue_default_unchecked_witness:
  "parseValue example_runtime (Some (Str ''''))
     \<lparr>kind = StringT (Some (Fin 5)) None None, required = Some True, defaultV = JStr ''ab'',
      description = None\<rparr> ''KEY''
     = Returns \<lparr>val = JStr ''ab'', error = None\<rparr>
   \<and> parseValue example_runtime None
     \<lparr>kind = NumberT (Some (Fin 5)) (Some (Fin 10)) None, required = None,
      defaultV = JBool True, description = None\<rparr> ''PORT''
     = Returns \<lparr>val = JBool True, error = None\<rparr>
   \<and> parseValue example_runtime None
     \<lparr>kind = EnumT [''development'', ''production''], required = None,
      defaultV = JStr ''staging'', description = None\<rparr> ''NODE_ENV''
     = Returns \<lparr>val = JStr ''staging'', error = None\<rparr>"
  using parseValue_default_unchecked [of "Some (Str '''')"
      "\<lparr>kind = StringT (Some (Fin 5)) None None, required = Some True, defaultV = JStr ''ab'',
        description = None\<rparr>" example_runtime "''KEY''"]
    parseValue_default_unchecked [of None
      "\<lparr>kind = NumberT (Some (Fin 5)) (Some (Fin 10)) None, required = None,
        defaultV = JBool True, description = None\<rparr>" example_runtime "''PORT''"]
    parseValue_default_unchecked [of None
      "\<lparr>kind = EnumT [''development'', ''production''], required = None,
        defaultV = JStr ''staging'', description = None\<rparr>" example_runtime "''NODE_ENV''"]
  by simp

subsection \<open>Checks by type\<close>

text \<open>
  C5. For a number descriptor and a non-empty raw string whose numeric value is not NaN,
  the checks run in the order integer, minimum, maximum, and the first that fails gives the
  error. The bounds are inclusive: below the minimum is \<open>num < min\<close> and above the
  maximum is \<open>num > max\<close>, so a value equal to the minimum, or equal to the maximum,
  passes when the other checks do.
\<close>

theorem parseNumber_checks_in_order:
  assumes "raw \<noteq> ''''" and "kind config = NumberT mn mx intg" and "\<not> isNaN (Number p raw)"
  shows "parseValue p (Some (Str raw)) config name = Returns
     (if intg = Some True \<and> \<not> isInteger (Number p raw) then
        \<lparr>val = JNum (Number p raw),
         error = Some \<lparr>variable = name, message = ''Value must be an integer'',
                       expected = Some ''integer'', received = Some (Str raw)\<rparr>\<rparr>
      else if mn \<noteq> None \<and> num_lt (Number p raw) (the mn) then
        \<lparr>val = JNum (Number p raw),
         error = Some \<lparr>variable = name,
                       message = ''Number is below minimum value ('' @ numberToString p (the mn) @ '')'',
                       expected = Some (''number >= '' @ numberToString p (the mn)),
                       received = Some (Str (numberToString p (Number p raw)))\<rparr>\<rparr>
      else if mx \<noteq> None \<and> num_lt (the mx) (Number p raw) then
        \<lparr>val = JNum (Number p raw),
         error = Some \<lparr>variable = name,
                       message = ''Number exceeds maximum value ('' @ numberToString p (the mx) @ '')'',
                       expected = Some (''number <= '' @ numberToString p (the mx)),
                       received = Some (Str (numberToString p (Number p raw)))\<rparr>\<rparr>
      else \<lparr>val = JNum (Number p raw), error = None\<rparr>)
   \<and> ((intg = Some True \<longrightarrow> isInteger (Number p raw)) \<longrightarrow>
        mn = Some (Number p raw) \<longrightarrow> (mx = None \<or> \<not> num_lt (the mx) (Number p raw)) \<longrightarrow>
        parseValue p (Some (Str raw)) config name =
          Returns \<lparr>val = JNum (Number p raw), error = None\<rparr>)
   \<and> ((intg = Some True \<longrightarrow> isInteger (Number p raw)) \<longrightarrow>
        mx = Some (Number p raw) \<longrightarrow> (mn = None \<or> \<not> num_lt (Number p raw) (the mn)) \<longrightarrow>
        parseValue p (Some (Str raw)) config name =
          Returns \<lparr>val = JNum (Number p raw), error = None\<rparr>)"
  using assms
  by (simp add: parseValue_def parseNumber_def num_gt_def num_lt_irrefl ok_def fail_def Let_def)

text \<open>
  With \<open>min = max = 10\<close> the string \<open>10\<close> passes; with \<open>max = 10\<close> the string
  \<open>11\<close> exceeds the maximum.
\<close>

theorem parseNumber_checks_in_order_witness:
  "parseValue example_runtime (Some (Str ''10''))
     (descriptor (NumberT (Some (Fin 10)) (Some (Fin 10)) (Some True))) ''PORT''
     = Returns \<lparr>val = JNum (Fin 10), error = None\<rparr>
   \<and> parseValue example_runtime (Some (Str ''11''))
     (descriptor (NumberT (Some (Fin 5)) (Some (Fin 10)) (Some True))) ''PORT''
     = Returns \<lparr>val = JNum (Fin 11),
         error = Some \<lparr>variable = ''PORT'', message = ''Number exceeds maximum value (10)'',
                       expected = Some ''number <= 10'', received = Some (Str ''11'')\<rparr>\<rparr>"
  using parseNumber_checks_in_order [of "''10''"
      "descriptor (NumberT (Some (Fin 10)) (Some (Fin 10)) (Some True))"
      "Some (Fin 10)" "Some (Fin 10)" "Some True" example_runtime "''PORT''"]
    parseNumber_checks_in_order [of "''11''"
      "descriptor (NumberT (Some (Fin 5)) (Some (Fin 10)) (Some True))"
      "Some (Fin 5)" "Some (Fin 10)" "Some True" example_runtime "''PORT''"]
  by (simp add: example_defs)

text \<open>
  C7. For a boolean descriptor and a non-empty raw string, the string is lower-cased and
  trimmed; \<open>true\<close>, \<open>1\<close>, \<open>yes\<close> give true, \<open>false\<close>, \<open>0\<close>, \<open>no\<close> give
  false, both without error, and anything else gives the value false with the error
  \<open>Invalid boolean value\<close>, expected \<open>true, false, 1, 0, yes, or no\<close>, received the
  raw string.
\<close>

theorem parseBoolean_groups:
  assumes "raw \<noteq> ''''" and "kind config = BooleanT"
  shows "parseValue p (Some (Str raw)) config name = Returns
     (if trim p (toLowerCase p raw) \<in> {''true'', ''1'', ''yes''} then
        \<lparr>val = JBool True, error = None\<rparr>
      else if trim p (toLowerCase p raw) \<in> {''false'', ''0'', ''no''} then
        \<lparr>val = JBool False, error = None\<rparr>
      else
        \<lparr>val = JBool False,
         error = Some \<lparr>variable = name, message = ''Invalid boolean value'',
                       expected = Some ''true, false, 1, 0, yes, or no'',
                       received = Some (Str raw)\<rparr>\<rparr>)"
proof -
  from assms have "parseValue p (Some (Str raw)) config name = parseBoolean p (Str raw) name"
    by (simp add: parseValue_def)
  then show ?thesis
    unfolding parseBoolean.simps ok_def fail_def Let_def
    by (simp add: if_distrib [of Returns] split del: if_split cong: if_cong)
qed

text \<open>\<open>YES\<close> between spaces is true; \<open>maybe\<close> is an error.\<close>

theorem parseBoolean_groups_witness:
  "parseValue example_runtime (Some (Str '' YES '')) (descriptor BooleanT) ''DEBUG''
     = Returns \<lparr>val = JBool True, error = None\<rparr>
   \<and> parseValue example_runtime (Some (Str ''maybe'')) (descriptor BooleanT) ''DEBUG''
     = Returns \<lparr>val = JBool False,
         error = Some \<lparr>variable = ''DEBUG'', message = ''Invalid boolean value'',
                       expected = Some ''true, false, 1, 0, yes, or no'',
                       received = Some (Str ''maybe'')\<rparr>\<rparr>"
  using parseBoolean_groups [of "'' YES ''" "descriptor BooleanT" example_runtime "''DEBUG''"]
    parseBoolean_groups [of "''maybe''" "descriptor BooleanT" example_runtime "''DEBUG''"]
  by (simp add: example_defs)

text \<open>
  C8. For a url descriptor and a non-empty raw string that the URL constructor accepts:
  when \<open>protocols\<close> is set and the scheme, without its trailing colon, is not in the list,
  the error \<open>Invalid URL protocol\<close> is returned; otherwise there is no error. The value
  is the raw string itself in both cases.
\<close>

theorem parseUrl_protocol_and_value:
  assumes "raw \<noteq> ''''" and "kind config = UrlT protos" and "newURL p raw = Returns protocol"
  shows "parseValue p (Some (Str raw)) config name = Returns
     (if protos \<noteq> None \<and> butlast protocol \<notin> set (the protos) then
        \<lparr>val = JStr raw,
         error = Some \<lparr>variable = name, message = ''Invalid URL protocol'',
                       expected = Some (''URL with protocol: '' @ join '', '' (the protos)),
                       received = Some (Str (butlast protocol))\<rparr>\<rparr>
      else \<lparr>val = JStr raw, error = None\<rparr>)
   \<and> (\<forall>r. parseValue p (Some (Str raw)) config name = Returns r \<longrightarrow> val r = JStr raw)"
  using assms
  by (simp add: parseValue_def parseUrl_def try_catch_def ok_def fail_def)

text \<open>
  With \<open>protocols: ['http', 'https']\<close>, an \<open>ftp\<close> URL is refused and an
  \<open>https\<close> URL is returned as written.
\<close>

theorem parseUrl_protocol_and_value_witness:
  "parseValue example_runtime (Some (Str ''ftp://example.com''))
     (descriptor (UrlT (Some [''http'', ''https'']))) ''API''
     = Returns \<lparr>val = JStr ''ftp://example.com'',
         error = Some \<lparr>variable = ''API'', message = ''Invalid URL protocol'',
                       expected = Some ''URL with protocol: http, https'',
                       received = Some (Str ''ftp'')\<rparr>\<rparr>
   \<and> parseValue example_runtime (Some (Str ''https://example.com''))
     (descriptor (UrlT (Some [''http'', ''https'']))) ''API''
     = Returns \<lparr>val = JStr ''https://example.com'', error = None\<rparr>"
  using parseUrl_protocol_and_value [of "''ftp://example.com''"
      "descriptor (UrlT (Some [''http'', ''https'']))" "Some [''http'', ''https'']"
      example_runtime "''ftp:''" "''API''"]
    parseUrl_protocol_and_value [of "''https://example.com''"
      "descriptor (UrlT (Some [''http'', ''https'']))" "Some [''http'', ''https'']"
      example_runtime "''https:''" "''API''"]
  by (simp add: example_defs)

section \<open>Enumeration of an object\<close>

lemma mset_Object_entries: "mset (Object_entries obj) = mset obj"
  by (simp add: Object_entries_def)

lemma set_Object_entries: "set (Object_entries obj) = set obj"
  using mset_Object_entries [of obj] by (metis set_mset_mset)

lemma set_Object_keys: "set (Object_keys obj) = set (map fst obj)"
  by (simp add: Object_keys_def set_Object_entries)

lemma distinct_Object_entries:
  "distinct (map fst (Object_entries obj)) = distinct (map fst obj)"
proof -
  have "mset (map fst (Object_entries obj)) = mset (map fst obj)"
    by (simp add: mset_Object_entries)
  then show ?thesis by (rule mset_eq_imp_distinct_iff)
qed

lemma Object_entries_declared:
  "\<forall>key \<in> set (map fst obj). \<not> is_array_index key \<Longrightarrow> Object_entries obj = obj"
proof -
  assume a: "\<forall>key \<in> set (map fst obj). \<not> is_array_index key"
  then have "[entry \<leftarrow> obj. is_array_index (fst entry)] = []"
    by (auto simp: filter_empty_conv)
  moreover from a have "[entry \<leftarrow> obj. \<not> is_array_index (fst entry)] = obj"
    by (auto simp: filter_id_conv)
  ultimately show ?thesis by (simp add: Object_entries_def)
qed

section \<open>When the parser returns\<close>

text \<open>
  Both built-ins that throw are called inside \<open>try\<close>. The only exception that leaves a
  parse function is the \<open>TypeError\<close> of \<open>parseBoolean\<close> on an inherited member; an error
  always names the variable that was parsed.
\<close>

lemma parseByType_returns:
  "\<not> (t = BooleanT \<and> (\<exists>m. v = Builtin m)) \<Longrightarrow> \<exists>r. parseByType p v t name = Returns r"
proof (cases t)
  case BooleanT
  assume "\<not> (t = BooleanT \<and> (\<exists>m. v = Builtin m))"
  with BooleanT show ?thesis by (cases v) (simp_all add: Let_def)
qed (auto simp: parseString_def parseNumber_def parseUrl_def parseJson_def parseEnum_def
       try_catch_def Let_def split: outcome.splits)

lemma parseValue_throws:
  "kind config = BooleanT \<Longrightarrow> parseValue p (Some (Builtin m)) config name =
     Throws TypeError_toLowerCase"
  by (simp add: parseValue_def)

lemma parseValue_returns:
  "\<not> (kind config = BooleanT \<and> (\<exists>m. raw = Some (Builtin m))) \<Longrightarrow>
     \<exists>r. parseValue p raw config name = Returns r"
proof -
  assume a: "\<not> (kind config = BooleanT \<and> (\<exists>m. raw = Some (Builtin m)))"
  show ?thesis
  proof (cases "raw = None \<or> raw = Some (Str '''')")
    case True
    then show ?thesis by (auto simp: parseValue_def)
  next
    case False
    then obtain v where v: "raw = Some v" by (cases raw) auto
    with a have "\<not> (kind config = BooleanT \<and> (\<exists>m. v = Builtin m))" by simp
    then have "\<exists>r. parseByType p v (kind config) name = Returns r"
      by (rule parseByType_returns)
    with False v show ?thesis by (simp add: parseValue_def)
  qed
qed

lemma parseByType_error_variable:
  "parseByType p v t name = Returns r \<Longrightarrow> error r = Some e \<Longrightarrow> variable e = name"
proof (cases t)
  case BooleanT
  assume "parseByType p v t name = Returns r" "error r = Some e"
  with BooleanT show ?thesis
    by (cases v) (auto simp: Let_def ok_def fail_def split: if_splits)
qed (auto simp: parseString_def parseNumber_def parseUrl_def parseJson_def parseEnum_def
       try_catch_def Let_def ok_def fail_def split: outcome.splits if_splits)

lemma parseValue_error_variable:
  "parseValue p raw config name = Returns r \<Longrightarrow> error r = Some e \<Longrightarrow> variable e = name"
  using parseByType_error_variable [of p "the raw" "kind config" name r e]
  by (auto simp: parseValue_def ok_def fail_def split: if_splits)

lemma entry_error_variable: "entry_error p env (k, c) = Some e \<Longrightarrow> variable e = k"
  by (auto simp: entry_error_def split: outcome.splits dest: parseValue_error_variable)

lemma typed_lookup_iff: "typed_lookup env key \<longleftrightarrow> (\<forall>m. env_get env key \<noteq> Some (Builtin m))"
  by (auto simp: typed_lookup_def split: option.splits raw.splits)

lemma entry_throws_outcome:
  "entry_throws env (k, c) \<Longrightarrow> parseValue p (env_get env k) c k = Throws TypeError_toLowerCase"
  by (auto simp: entry_throws_def typed_lookup_iff parseValue_throws)

lemma entry_returns_outcome:
  "\<not> entry_throws env (k, c) \<Longrightarrow>
     \<exists>r. parseValue p (env_get env k) c k = Returns r \<and> entry_error p env (k, c) = error r"
proof -
  assume "\<not> entry_throws env (k, c)"
  then have "\<not> (kind c = BooleanT \<and> (\<exists>m. env_get env k = Some (Builtin m)))"
    by (auto simp: entry_throws_def typed_lookup_iff)
  from parseValue_returns [OF this, of p k] show ?thesis by (auto simp: entry_error_def)
qed

section \<open>The loops in closed form\<close>

text \<open>
  Each loop visits every entry unless a parse throws: the errors are those of the entries
  that fail, in the order of the entries, appended to what was collected before.
\<close>

lemma map_filter_eq_Nil: "List.map_filter f xs = [] \<longleftrightarrow> (\<forall>x \<in> set xs. f x = None)"
  by (induction xs) (auto split: option.splits)

lemma validate_loop_eq:
  "validate_loop p env entries errs =
     (if \<exists>entry \<in> set entries. entry_throws env entry then Throws TypeError_toLowerCase
      else Returns (errs @ List.map_filter (entry_error p env) entries))"
proof (induction entries arbitrary: errs)
  case Nil
  show ?case by simp
next
  case (Cons entry rest)
  obtain key config where entry: "entry = (key, config)" by (cases entry)
  show ?case
  proof (cases "entry_throws env (key, config)")
    case True
    with entry entry_throws_outcome [OF True, of p] show ?thesis by simp
  next
    case False
    from entry_returns_outcome [OF False, of p]
    obtain r where r: "parseValue p (env_get env key) config key = Returns r"
      and e: "entry_error p env (key, config) = error r" by auto
    show ?thesis
    proof (cases "error r")
      case None
      with r e entry False Cons.IH [of errs] show ?thesis by simp
    next
      case (Some e')
      with r e entry False Cons.IH [of "errs @ [e']"] show ?thesis by simp
    qed
  qed
qed

lemma warning_loop_eq:
  "warning_loop env K keys warns =
     warns @ map warning_text [key \<leftarrow> keys. key \<notin> K \<and> env_get env key \<noteq> None]"
  by (induction keys arbitrary: warns) auto

lemma parse_loop_throws:
  "\<exists>entry \<in> set entries. entry_throws env entry \<Longrightarrow>
     parse_loop p env entries result errs = Throws TypeError_toLowerCase"
proof (induction entries arbitrary: result errs)
  case Nil
  then show ?case by simp
next
  case (Cons entry rest)
  obtain key config where entry: "entry = (key, config)" by (cases entry)
  show ?case
  proof (cases "entry_throws env (key, config)")
    case True
    with entry entry_throws_outcome [OF True, of p] show ?thesis by simp
  next
    case False
    with Cons.prems entry have later: "\<exists>entry \<in> set rest. entry_throws env entry" by auto
    from entry_returns_outcome [OF False, of p]
    obtain r where r: "parseValue p (env_get env key) config key = Returns r" by auto
    from r entry Cons.IH [OF later] show ?thesis by (simp split: option.splits)
  qed
qed

lemma parse_loop_returns:
  "\<forall>entry \<in> set entries. \<not> entry_throws env entry \<Longrightarrow>
     \<exists>result'. parse_loop p env entries result errs =
        Returns (result', errs @ List.map_filter (entry_error p env) entries)"
proof (induction entries arbitrary: result errs)
  case Nil
  show ?case by simp
next
  case (Cons entry rest)
  obtain key config where entry: "entry = (key, config)" by (cases entry)
  from Cons.prems entry have here: "\<not> entry_throws env (key, config)"
    and later: "\<forall>entry \<in> set rest. \<not> entry_throws env entry" by auto
  from entry_returns_outcome [OF here, of p]
  obtain r where r: "parseValue p (env_get env key) config key = Returns r"
    and e: "entry_error p env (key, config) = error r" by auto
  show ?case
  proof (cases "error r")
    case None
    with r e entry Cons.IH [OF later, of "assign key (val r) result" errs] show ?thesis by simp
  next
    case (Some e')
    with r e entry Cons.IH [OF later, of result "errs @ [e']"] show ?thesis by simp
  qed
qed

lemma validateEnv_eq:
  "validateEnv p env schema =
     (if \<exists>entry \<in> set schema. entry_throws env entry then Throws TypeError_toLowerCase
      else Returns
        \<lparr>valid = (List.map_filter (entry_error p env) (Object_entries schema) = []),
         errors = List.map_filter (entry_error p env) (Object_entries schema),
         warnings = map warning_text
           [key \<leftarrow> Object_keys env. key \<notin> set (map fst schema) \<and> env_get env key \<noteq> None]\<rparr>)"
  by (simp add: validateEnv_def validate_loop_eq warning_loop_eq set_Object_entries
        set_Object_keys)

lemma parseEnv_throws:
  "\<exists>entry \<in> set schema. entry_throws env entry \<Longrightarrow>
     parseEnv p env schema = Throws TypeError_toLowerCase"
  by (simp add: parseEnv_def parse_loop_throws set_Object_entries)

lemma parseEnv_returns:
  assumes "\<forall>entry \<in> set schema. \<not> entry_throws env entry"
  shows "\<exists>result. parse_loop p env (Object_entries schema) [] [] =
            Returns (result, List.map_filter (entry_error p env) (Object_entries schema))
          \<and> parseEnv p env schema =
            (if List.map_filter (entry_error p env) (Object_entries schema) \<noteq> [] then
               Throws (''Environment validation failed:'' @ newline @ formatValidationErrors p
                         (List.map_filter (entry_error p env) (Object_entries schema)))
             else Returns result)"
proof -
  from assms have "\<forall>entry \<in> set (Object_entries schema). \<not> entry_throws env entry"
    by (simp add: set_Object_entries)
  from parse_loop_returns [OF this, of p "[]" "[]"]
  obtain result where "parse_loop p env (Object_entries schema) [] [] =
            Returns (result, List.map_filter (entry_error p env) (Object_entries schema))"
    by auto
  then show ?thesis by (auto simp: parseEnv_def)
qed

lemma map_filter_variable:
  "e \<in> set (List.map_filter (entry_error p env) entries) \<Longrightarrow> variable e \<in> set (map fst entries)"
proof (induction entries)
  case Nil
  then show ?case by simp
next
  case (Cons entry rest)
  then show ?case
    by (cases entry) (auto split: option.splits dest: entry_error_variable)
qed

lemma filter_variable_empty:
  "key \<notin> set (map fst entries) \<Longrightarrow>
     [e \<leftarrow> List.map_filter (entry_error p env) entries. variable e = key] = []"
  using map_filter_variable [of _ p env entries] by (auto simp: filter_empty_conv)

lemma at_most_one_error:
  "distinct (map fst entries) \<Longrightarrow>
     length [e \<leftarrow> List.map_filter (entry_error p env) entries. variable e = key] \<le> 1"
proof (induction entries)
  case Nil
  then show ?case by simp
next
  case (Cons entry rest)
  obtain k c where entry: "entry = (k, c)" by (cases entry)
  from Cons.prems entry have notin: "k \<notin> set (map fst rest)" and dist: "distinct (map fst rest)"
    by auto
  show ?case
  proof (cases "entry_error p env (k, c)")
    case None
    with entry Cons.IH [OF dist] show ?thesis by simp
  next
    case (Some e)
    then have var: "variable e = k" by (rule entry_error_variable)
    show ?thesis
    proof (cases "key = k")
      case True
      with Some entry var filter_variable_empty [OF notin, of p env] show ?thesis by simp
    next
      case False
      with Some entry var Cons.IH [OF dist] show ?thesis by simp
    qed
  qed
qed

lemma errors_subseq:
  "subseq (map variable (List.map_filter (entry_error p env) entries)) (map fst entries)"
proof (induction entries)
  case Nil
  show ?case by simp
next
  case (Cons entry rest)
  then show ?case
    by (cases entry) (auto split: option.splits dest: entry_error_variable)
qed

section \<open>The parser against the rules of the specification\<close>

lemma type_rules_first_failing:
  assumes "s \<noteq> ''''" and "stateless t"
  shows "\<exists>r. parseByType p (Str s) t name = Returns r
            \<and> error r = first_failing (type_rules p s t name)"
proof (cases t)
  case (StringT minL maxL pat)
  with assms(2) have "pat \<noteq> None \<Longrightarrow> regexp_test (the pat) s = test (the pat) 0 s"
    by (auto simp: regexp_test_def)
  with StringT show ?thesis
    by (auto simp: parseString_def num_gt_def ok_def fail_def TooShort_def TooLong_def
          PatternMismatch_def)
next
  case (NumberT mn mx intg)
  then show ?thesis
    by (simp add: parseNumber_def num_gt_def ok_def fail_def Let_def InvalidNumber_def
          NotInteger_def BelowMinimum_def AboveMaximum_def)
next
  case BooleanT
  then show ?thesis
    by (simp add: ok_def fail_def Let_def InvalidBoolean_def)
next
  case (UrlT protos)
  then show ?thesis
    by (cases "newURL p s")
       (simp_all add: parseUrl_def try_catch_def ok_def fail_def throws_def scheme_of_def
          InvalidUrl_def InvalidProtocol_def)
next
  case JsonT
  then show ?thesis
    by (cases "JSON_parse p s")
       (simp_all add: parseJson_def try_catch_def ok_def fail_def throws_def InvalidJson_def)
next
  case (EnumT vals)
  then show ?thesis
    by (simp add: parseEnum_def ok_def fail_def InvalidEnumValue_def)
next
  case (OtherT u)
  then show ?thesis
    by (simp add: fail_def UnknownType_def)
qed

lemma parseValue_first_failing:
  assumes "stateless (kind config)"
  shows "\<exists>r. parseValue p (map_option Str rawValue) config name = Returns r
            \<and> error r = first_failing (spec_rules p rawValue config name)"
proof (cases "rawValue = None \<or> rawValue = Some ''''")
  case True
  then show ?thesis
    by (auto simp: parseValue_def spec_rules_def ok_def fail_def MissingRequired_def)
next
  case False
  then obtain s where s: "rawValue = Some s" "s \<noteq> ''''" by (cases rawValue) auto
  from type_rules_first_failing [OF s(2) assms, of p name] s show ?thesis
    by (simp add: parseValue_def spec_rules_def)
qed

lemma typed_lookup_string:
  "typed_lookup env key \<Longrightarrow> env_get env key = map_option Str (string_lookup env key)"
  by (auto simp: typed_lookup_def string_lookup_def split: option.splits raw.splits)

lemma entry_error_spec:
  assumes "typed_lookup env (fst entry)" and "stateless (kind (snd entry))"
  shows "entry_error p env entry = spec_error p env entry"
  using parseValue_first_failing [OF assms(2), of p "string_lookup env (fst entry)" "fst entry"]
    typed_lookup_string [OF assms(1)]
  by (auto simp: entry_error_def spec_error_def)

lemma map_filter_cong_set:
  "\<forall>x \<in> set xs. f x = g x \<Longrightarrow> List.map_filter f xs = List.map_filter g xs"
  by (induction xs) (auto split: option.splits)

section \<open>The object built by parseEnv\<close>

text \<open>
  An assignment stores under its key, except under \<open>__proto__\<close>; later entries with other
  keys leave the property alone.
\<close>

lemma map_of_store: "map_of (store k v al) = (map_of al)(k \<mapsto> v)"
  by (induction al) (auto simp: fun_eq_iff)

lemma map_of_assign:
  "k \<noteq> ''__proto__'' \<Longrightarrow> map_of (assign k v al) = (map_of al)(k \<mapsto> v)"
  by (simp add: assign_def map_of_store)

lemma map_of_assign_other: "k \<noteq> key \<Longrightarrow> map_of (assign k v al) key = map_of al key"
  by (simp add: assign_def map_of_store)

lemma parse_loop_keeps:
  "parse_loop p env entries result errs = Returns (result', errs') \<Longrightarrow>
   key \<notin> set (map fst entries) \<Longrightarrow> map_of result' key = map_of result key"
proof (induction entries arbitrary: result errs)
  case Nil
  then show ?case by simp
next
  case (Cons entry rest)
  obtain k c where entry: "entry = (k, c)" by (cases entry)
  from Cons.prems(2) entry have ne: "k \<noteq> key" and notin: "key \<notin> set (map fst rest)" by auto
  show ?case
  proof (cases "parseValue p (env_get env k) c k")
    case (Throws e)
    with Cons.prems(1) entry show ?thesis by simp
  next
    case (Returns r)
    show ?thesis
    proof (cases "error r")
      case None
      with Cons.prems(1) entry Returns
      have "parse_loop p env rest (assign k (val r) result) errs = Returns (result', errs')"
        by simp
      from Cons.IH [OF this notin] ne show ?thesis by (simp add: map_of_assign_other)
    next
      case (Some e)
      with Cons.prems(1) entry Returns
      have "parse_loop p env rest result (errs @ [e]) = Returns (result', errs')" by simp
      from Cons.IH [OF this notin] show ?thesis .
    qed
  qed
qed

lemma parse_loop_stores:
  "parse_loop p env entries result errs = Returns (result', errs') \<Longrightarrow>
   distinct (map fst entries) \<Longrightarrow> (key, config) \<in> set entries \<Longrightarrow> key \<noteq> ''__proto__'' \<Longrightarrow>
   parseValue p (env_get env key) config key = Returns r \<Longrightarrow> error r = None \<Longrightarrow>
   map_of result' key = Some (val r)"
proof (induction entries arbitrary: result errs)
  case Nil
  then show ?case by simp
next
  case (Cons entry rest)
  obtain k c where entry: "entry = (k, c)" by (cases entry)
  from Cons.prems(2) entry have notin: "k \<notin> set (map fst rest)" and dist: "distinct (map fst rest)"
    by auto
  show ?case
  proof (cases "(key, config) = (k, c)")
    case True
    with Cons.prems(1,5,6) entry
    have "parse_loop p env rest (assign k (val r) result) errs = Returns (result', errs')"
      by simp
    from parse_loop_keeps [OF this notin] True Cons.prems(4) show ?thesis
      by (simp add: map_of_assign)
  next
    case False
    with Cons.prems(3) entry have mem: "(key, config) \<in> set rest" by auto
    show ?thesis
    proof (cases "parseValue p (env_get env k) c k")
      case (Throws e)
      with Cons.prems(1) entry show ?thesis by simp
    next
      case (Returns r0)
      show ?thesis
      proof (cases "error r0")
        case None
        with Cons.prems(1) entry Returns
        have "parse_loop p env rest (assign k (val r0) result) errs = Returns (result', errs')"
          by simp
        from Cons.IH [OF this dist mem Cons.prems(4,5,6)] show ?thesis .
      next
        case (Some e)
        with Cons.prems(1) entry Returns
        have "parse_loop p env rest result (errs @ [e]) = Returns (result', errs')" by simp
        from Cons.IH [OF this dist mem Cons.prems(4,5,6)] show ?thesis .
      qed
    qed
  qed
qed

text \<open>Unfolding sets for the examples.\<close>

lemmas object_defs = Object_entries_def Object_keys_def is_array_index_def index_value_def
  env_get_def Object_prototype_members_def typed_lookup_def string_lookup_def assign_def

lemmas validator_defs = parseEnv_def validateEnv_def parseValue_def parseNumber_def
  parseUrl_def parseString_def try_catch_def ok_def fail_def formatValidationErrors_def
  format_block_def num_gt_def str_length_def TypeError_toLowerCase_def

section \<open>Outside the inherited members\<close>

text \<open>
  When no schema key reads an inherited member, \<open>validateEnv\<close> returns, and \<open>parseEnv\<close>
  throws exactly when some entry has an error, with a message that starts with
  \<open>Environment validation failed:\<close>.
\<close>

lemma typed_environment_outcomes:
  assumes "\<forall>entry \<in> set schema. typed_lookup env (fst entry)"
  shows "(\<exists>r. validateEnv p env schema = Returns r)
   \<and> ((\<exists>m. parseEnv p env schema = Throws m) \<longleftrightarrow>
        (\<exists>entry \<in> set schema. entry_error p env entry \<noteq> None))
   \<and> ((\<exists>result. parseEnv p env schema = Returns result) \<longleftrightarrow>
        (\<forall>entry \<in> set schema. entry_error p env entry = None))
   \<and> (\<forall>m. parseEnv p env schema = Throws m \<longrightarrow> prefix ''Environment validation failed:'' m)"
proof -
  from assms have quiet: "\<forall>entry \<in> set schema. \<not> entry_throws env entry"
    by (simp add: entry_throws_def)
  then have 1: "\<exists>r. validateEnv p env schema = Returns r"
    by (simp add: validateEnv_eq)
  from parseEnv_returns [OF quiet, of p]
  obtain result where pe: "parseEnv p env schema =
            (if List.map_filter (entry_error p env) (Object_entries schema) \<noteq> [] then
               Throws (''Environment validation failed:'' @ newline @ formatValidationErrors p
                         (List.map_filter (entry_error p env) (Object_entries schema)))
             else Returns result)"
    by auto
  have nil: "List.map_filter (entry_error p env) (Object_entries schema) = [] \<longleftrightarrow>
      (\<forall>entry \<in> set schema. entry_error p env entry = None)"
    by (simp add: map_filter_eq_Nil set_Object_entries)
  have 2: "(\<exists>m. parseEnv p env schema = Throws m) \<longleftrightarrow>
        (\<exists>entry \<in> set schema. entry_error p env entry \<noteq> None)"
    using pe nil by auto
  have 3: "(\<exists>result. parseEnv p env schema = Returns result) \<longleftrightarrow>
        (\<forall>entry \<in> set schema. entry_error p env entry = None)"
    using pe nil by auto
  have 4: "\<forall>m. parseEnv p env schema = Throws m \<longrightarrow> prefix ''Environment validation failed:'' m"
    using pe by (auto split: if_splits)
  from 1 2 3 4 show ?thesis by blast
qed

section \<open>Validation of an environment\<close>

text \<open>
  C2 says that \<open>validateEnv\<close> never throws and that what \<open>parseEnv\<close> throws starts with
  \<open>Environment validation failed:\<close>. The code reads \<open>env[key]\<close> through the prototype
  chain: for the schema \<open>{toString: {type: 'boolean'}}\<close> and the environment \<open>{}\<close> the raw
  value is the function \<open>Object.prototype.toString\<close>, and \<open>parseBoolean\<close> calls
  \<open>toLowerCase\<close> on it. Both operations throw this \<open>TypeError\<close>.
\<close>

theorem validateEnv_throws_on_inherited_key:
  "validateEnv example_runtime [] [(''toString'', descriptor BooleanT)] =
     Throws ''TypeError: value.toLowerCase is not a function''
   \<and> parseEnv example_runtime [] [(''toString'', descriptor BooleanT)] =
     Throws ''TypeError: value.toLowerCase is not a function''
   \<and> \<not> prefix ''Environment validation failed:''
         ''TypeError: value.toLowerCase is not a function''"
  by (simp add: validator_defs object_defs descriptor_def)



text \<open>
  C4, as stated, fails in its last part. \<open>Object.entries\<close> lists a key that is an array
  index before the other keys, wherever it was declared: for the schema
  \<open>{B: number, 1: number}\<close> and an empty environment the error of \<open>1\<close> comes before the
  error of \<open>B\<close>.
\<close>

theorem validateEnv_errors_enumeration_order_counterexample:
  "validateEnv example_runtime []
     [(''B'', descriptor (NumberT None None None)), (''1'', descriptor (NumberT None None None))] =
     Returns \<lparr>valid = False,
       errors = [\<lparr>variable = ''1'', message = ''Required environment variable is missing'',
                  expected = Some ''number value'', received = Some (Str ''undefined'')\<rparr>,
                 \<lparr>variable = ''B'', message = ''Required environment variable is missing'',
                  expected = Some ''number value'', received = Some (Str ''undefined'')\<rparr>],
       warnings = []\<rparr>
   \<and> \<not> subseq [''1'', ''B''] [''B'', ''1'']"
  by (simp add: validator_defs object_defs descriptor_def subseq_Cons2_iff)

text \<open>
  C4, amended. Take a schema with distinct keys none of which reads an inherited member of
  the environment, and whose patterns have neither the \<open>g\<close> nor the \<open>y\<close> flag. Then
  \<open>validateEnv\<close> evaluates every entry: its errors are exactly those that the rules of the
  specification give for the entries, the first failing rule in the order of the type for
  each, so each failing entry's error is there whatever the other entries do. There is at
  most one error per key. The errors come in the order of \<open>Object.entries\<close>: keys that are
  array indices first, in ascending order, then the others as declared; for a schema without
  such keys this is the order of declaration.
\<close>

theorem validateEnv_errors_per_key:
  assumes "distinct (map fst schema)"
    and "\<forall>entry \<in> set schema. typed_lookup env (fst entry) \<and> stateless (kind (snd entry))"
  shows "\<exists>r. validateEnv p env schema = Returns r
     \<and> errors r = List.map_filter (spec_error p env) (Object_entries schema)
     \<and> (\<forall>entry \<in> set schema. \<forall>e. spec_error p env entry = Some e \<longrightarrow> e \<in> set (errors r))
     \<and> (\<forall>key. length [e \<leftarrow> errors r. variable e = key] \<le> 1)
     \<and> subseq (map variable (errors r)) (map fst (Object_entries schema))
     \<and> ((\<forall>key \<in> set (map fst schema). \<not> is_array_index key) \<longrightarrow>
          subseq (map variable (errors r)) (map fst schema))"
proof -
  let ?errs = "List.map_filter (entry_error p env) (Object_entries schema)"
  from assms(2) have quiet: "\<not> (\<exists>entry \<in> set schema. entry_throws env entry)"
    by (simp add: entry_throws_def)
  then have run: "validateEnv p env schema = Returns
        \<lparr>valid = (?errs = []), errors = ?errs,
         warnings = map warning_text
           [key \<leftarrow> Object_keys env. key \<notin> set (map fst schema) \<and> env_get env key \<noteq> None]\<rparr>"
    by (simp add: validateEnv_eq)
  have "\<forall>entry \<in> set (Object_entries schema). entry_error p env entry = spec_error p env entry"
    using assms(2) by (simp add: set_Object_entries entry_error_spec)
  then have spec: "?errs = List.map_filter (spec_error p env) (Object_entries schema)"
    by (rule map_filter_cong_set)
  have every: "\<forall>entry \<in> set schema. \<forall>e. spec_error p env entry = Some e \<longrightarrow> e \<in> set ?errs"
  proof (intro ballI allI impI)
    fix entry e assume "entry \<in> set schema" and "spec_error p env entry = Some e"
    then have "entry \<in> set (Object_entries schema)" and "spec_error p env entry = Some e"
      by (simp_all add: set_Object_entries)
    then show "e \<in> set ?errs" unfolding spec by (force simp: List.map_filter_def)
  qed
  have one: "\<forall>key. length [e \<leftarrow> ?errs. variable e = key] \<le> 1"
    using at_most_one_error [where entries = "Object_entries schema" and p = p and env = env] assms(1)
    by (simp add: distinct_Object_entries)
  have ordered: "subseq (map variable ?errs) (map fst (Object_entries schema))"
    by (rule errors_subseq)
  have declared: "(\<forall>key \<in> set (map fst schema). \<not> is_array_index key) \<longrightarrow>
          subseq (map variable ?errs) (map fst schema)"
  proof
    assume "\<forall>key \<in> set (map fst schema). \<not> is_array_index key"
    then have "Object_entries schema = schema" by (rule Object_entries_declared)
    with ordered show "subseq (map variable ?errs) (map fst schema)" by simp
  qed
  from run spec every one ordered declared show ?thesis by simp
qed

text \<open>
  Of three entries the first and the third fail, in the order of declaration. The third is
  too short and does not match its pattern either: the length rule comes first.
\<close>

theorem validateEnv_errors_per_key_witness:
  "distinct (map fst [(''A'', descriptor (NumberT None None None)), (''B'', descriptor BooleanT),
       (''C'', descriptor (StringT (Some (Fin 5)) None (Some digits_pattern)))])
   \<and> typed_lookup [(''A'', Some ''abc''), (''B'', Some ''yes''), (''C'', Some ''abc'')] ''A''
   \<and> typed_lookup [(''A'', Some ''abc''), (''B'', Some ''yes''), (''C'', Some ''abc'')] ''B''
   \<and> typed_lookup [(''A'', Some ''abc''), (''B'', Some ''yes''), (''C'', Some ''abc'')] ''C''
   \<and> stateless (StringT (Some (Fin 5)) None (Some digits_pattern))
   \<and> validateEnv example_runtime [(''A'', Some ''abc''), (''B'', Some ''yes''), (''C'', Some ''abc'')]
      [(''A'', descriptor (NumberT None None None)), (''B'', descriptor BooleanT),
       (''C'', descriptor (StringT (Some (Fin 5)) None (Some digits_pattern)))] =
     Returns \<lparr>valid = False,
       errors = [\<lparr>variable = ''A'', message = ''Invalid number format'',
                  expected = Some ''number'', received = Some (Str ''abc'')\<rparr>,
                 \<lparr>variable = ''C'',
                  message = ''String is too short (minimum: 5 characters)'',
                  expected = Some ''string with at least 5 characters'',
                  received = Some (Str ''string with 3 characters'')\<rparr>],
       warnings = []\<rparr>
   \<and> subseq [''A'', ''C''] [''A'', ''B'', ''C'']"
proof -
  let ?schema = "[(''A'', descriptor (NumberT None None None)), (''B'', descriptor BooleanT),
       (''C'', descriptor (StringT (Some (Fin 5)) None (Some digits_pattern)))]"
  let ?env = "[(''A'', Some ''abc''), (''B'', Some ''yes''), (''C'', Some ''abc'')]"
  have d: "distinct (map fst ?schema)" by simp
  have t: "\<forall>entry \<in> set ?schema. typed_lookup ?env (fst entry) \<and> stateless (kind (snd entry))"
    by (simp add: object_defs descriptor_def digits_pattern_def)
  have plain: "\<forall>key \<in> set (map fst ?schema). \<not> is_array_index key"
    by (simp add: is_array_index_def)
  have run: "validateEnv example_runtime ?env ?schema =
     Returns \<lparr>valid = False,
       errors = [\<lparr>variable = ''A'', message = ''Invalid number format'',
                  expected = Some ''number'', received = Some (Str ''abc'')\<rparr>,
                 \<lparr>variable = ''C'',
                  message = ''String is too short (minimum: 5 characters)'',
                  expected = Some ''string with at least 5 characters'',
                  received = Some (Str ''string with 3 characters'')\<rparr>],
       warnings = []\<rparr>"
    by (simp add: validator_defs object_defs example_defs digits_pattern_def regexp_test_def)
  from validateEnv_errors_per_key [OF d t, of example_runtime] run plain
  have "subseq [''A'', ''C''] [''A'', ''B'', ''C'']" by auto
  with d t run show ?thesis by (simp add: descriptor_def)
qed

section \<open>The typed object\<close>

text \<open>
  C6, as stated, fails: for an optional key without default and without raw value,
  \<open>parseEnv\<close> executes \<open>result[key] = value\<close> with the value \<open>undefined\<close>, so the
  returned object has the key.
\<close>

theorem parseEnv_optional_key_present_counterexample:
  "parseEnv example_runtime []
     [(''OPT'', \<lparr>kind = StringT None None None, required = Some False, defaultV = JUndefined,
                 description = None\<rparr>)] = Returns [(''OPT'', JUndefined)]
   \<and> ''OPT'' \<in> set (map fst [(''OPT'', JUndefined)])"
  by (simp add: validator_defs object_defs)

text \<open>
  C6, amended. When \<open>parseEnv\<close> succeeds on a schema with distinct keys, a key other than
  \<open>__proto__\<close> that is explicitly optional, has no default and for which \<open>env[key]\<close> is
  \<open>undefined\<close> or the empty string is an own property of the returned object and holds
  \<open>undefined\<close>: reading it gives \<open>undefined\<close>, not null and not a placeholder.
\<close>

theorem parseEnv_optional_key_holds_undefined:
  assumes "parseEnv p env schema = Returns result"
    and "distinct (map fst schema)"
    and "(key, config) \<in> set schema"
    and "key \<noteq> ''__proto__''"
    and "required config = Some False"
    and "defaultV config = JUndefined"
    and "env_get env key = None \<or> env_get env key = Some (Str '''')"
  shows "map_of result key = Some JUndefined"
proof -
  from assms(5,6,7) have pv: "parseValue p (env_get env key) config key = Returns (ok JUndefined)"
    by (auto simp: parseValue_def)
  obtain errs where loop: "parse_loop p env (Object_entries schema) [] [] = Returns (result, errs)"
    using assms(1) by (auto simp: parseEnv_def split: outcome.splits if_splits)
  have d: "distinct (map fst (Object_entries schema))"
    using assms(2) by (simp add: distinct_Object_entries)
  have m: "(key, config) \<in> set (Object_entries schema)"
    using assms(3) by (simp add: set_Object_entries)
  from parse_loop_stores [OF loop d m assms(4) pv] show ?thesis by (simp add: ok_def)
qed

text \<open>An empty \<open>OPT\<close> next to \<open>PORT=8080\<close>.\<close>

theorem parseEnv_optional_key_holds_undefined_witness:
  "parseEnv example_runtime [(''OPT'', Some ''''), (''PORT'', Some ''8080'')]
     [(''PORT'', descriptor (NumberT None None None)),
      (''OPT'', \<lparr>kind = StringT None None None, required = Some False, defaultV = JUndefined,
                 description = None\<rparr>)] = Returns [(''PORT'', JNum (Fin 8080)), (''OPT'', JUndefined)]
   \<and> map_of [(''PORT'', JNum (Fin 8080)), (''OPT'', JUndefined)] ''OPT'' = Some JUndefined"
proof -
  have run: "parseEnv example_runtime [(''OPT'', Some ''''), (''PORT'', Some ''8080'')]
     [(''PORT'', descriptor (NumberT None None None)),
      (''OPT'', \<lparr>kind = StringT None None None, required = Some False, defaultV = JUndefined,
                 description = None\<rparr>)] = Returns [(''PORT'', JNum (Fin 8080)), (''OPT'', JUndefined)]"
    by (simp add: validator_defs object_defs example_defs)
  have "map_of [(''PORT'', JNum (Fin 8080)), (''OPT'', JUndefined)] ''OPT'' = Some JUndefined"
    by (rule parseEnv_optional_key_holds_undefined [OF run, of "''OPT''"
          "\<lparr>kind = StringT None None None, required = Some False, defaultV = JUndefined,
                 description = None\<rparr>"])
       (simp_all add: env_get_def)
  with run show ?thesis by simp
qed

text \<open>
  Both side conditions are needed. For the environment \<open>{}\<close> the key \<open>constructor\<close>
  reads the inherited function, which is stored; an assignment to \<open>__proto__\<close> stores
  nothing.
\<close>

lemma parseEnv_inherited_keys:
  "parseEnv example_runtime []
     [(''constructor'', \<lparr>kind = StringT None None None, required = Some False,
                         defaultV = JUndefined, description = None\<rparr>)] =
     Returns [(''constructor'', JBuiltin ''constructor'')]
   \<and> parseEnv example_runtime [(''__proto__'', Some '''')]
     [(''__proto__'', \<lparr>kind = StringT None None None, required = Some False,
                       defaultV = JUndefined, description = None\<rparr>)] = Returns []"
  by (simp add: validator_defs object_defs)

end
